theory Spec2Isabelle
  imports Complex_Main "HOL-Library.Word" "HOL-Library.Sublist"
begin

section \<open>JavaScript strings\<close>

text \<open>
  A JavaScript string is a sequence of UTF-16 code units; \<open>length\<close>, \<open>substring\<close> and
  \<open>includes\<close> all count code units. The accented letters of the source (a-acute \<open>0xE1\<close>,
  e-acute \<open>0xE9\<close>, i-acute \<open>0xED\<close>, n-tilde \<open>0xF1\<close>, o-acute \<open>0xF3\<close>, u-acute \<open>0xFA\<close>)
  are single precomposed code units in \<open>src/index.ts\<close>.
\<close>

type_synonym code_unit = "16 word"
type_synonym jsstring = "code_unit list"

definition js :: "string \<Rightarrow> jsstring" where
  "js s = map of_char s"

text \<open>\<open>s.includes(k)\<close>: \<open>k\<close> occurs in \<open>s\<close> at some position.\<close>

fun includes_js :: "jsstring \<Rightarrow> jsstring \<Rightarrow> bool" where
  "includes_js [] k = (k = [])"
| "includes_js (c # s) k = (prefix k (c # s) \<or> includes_js s k)"

text \<open>\<open>s.substring(0, n)\<close> for a non-negative integer \<open>n\<close>.\<close>

definition substring0 :: "jsstring \<Rightarrow> nat \<Rightarrow> jsstring" where
  "substring0 s n = take n s"

text \<open>\<open>xs.join(sep)\<close> on a list of strings.\<close>

fun join :: "jsstring list \<Rightarrow> jsstring \<Rightarrow> jsstring" where
  "join [] sep = []"
| "join [x] sep = x"
| "join (x # y # ys) sep = x @ sep @ join (y # ys) sep"

text \<open>Decimal rendering of a non-negative integer in a template literal.\<close>

fun digits :: "nat \<Rightarrow> jsstring" where
  "digits n = (if n < 10 then [of_nat (48 + n)]
               else digits (n div 10) @ [of_nat (48 + n mod 10)])"

declare digits.simps [simp del]

text \<open>
  \<open>String.prototype.toLowerCase\<close> is a built-in of the language (full Unicode case
  mapping). Every function below that calls it takes it as the parameter \<open>lc\<close>, so the
  theorems hold for whatever the runtime computes. \<open>lowerBasicLatin\<close> is its restriction to
  the letters \<open>A\<close>..\<open>Z\<close>, used where a concrete input is evaluated; it agrees with
  \<open>toLowerCase\<close> on every string whose code units are below \<open>0x80\<close> or are lower-case
  Latin-1 letters.
\<close>

definition lowerBasicLatin :: "jsstring \<Rightarrow> jsstring" where
  "lowerBasicLatin s = map (\<lambda>c. if 0x41 \<le> c \<and> c \<le> 0x5A then c + 0x20 else c) s"

section \<open>Errors and external services\<close>

text \<open>
  A thrown value: an \<open>Error\<close> instance with its message, or some other value (for which
  the handlers of the source report \<open>Unknown error\<close>).
\<close>

datatype exn = Error jsstring | Thrown

definition error_message :: "exn \<Rightarrow> jsstring" where
  "error_message e = (case e of Error m \<Rightarrow> m | Thrown \<Rightarrow> js ''Unknown error'')"

text \<open>
  The body of a chat-completion request. The three call sites of the source send the same
  URL, headers, \<open>temperature: 0.7\<close> and \<open>top_p: 0.9\<close>; they differ in the two messages and in
  \<open>max_tokens\<close>.
\<close>

record completion_request =
  system_content :: jsstring
  user_content :: jsstring
  max_tokens :: nat

text \<open>
  \<open>interface AzureOpenAIResponse\<close>. The source reads
  \<open>choices?.[0]?.message?.content\<close>, so every level may be absent.
\<close>

record azure_message =
  content :: "jsstring option"

record azure_choice =
  message :: "azure_message option"

record azure_response =
  choices :: "azure_choice list option"

text \<open>
  What \<open>await fetch(...)\<close> gives: the promise rejects, or a response arrives with its
  status, and with what \<open>response.text()\<close> and \<open>response.json()\<close> give (each may reject).
\<close>

datatype fetch_outcome =
  Rejected exn
| Response nat "exn + jsstring" "exn + azure_response"

text \<open>\<open>interface EmbeddingResponse\<close> (the fields the source reads).\<close>

record embedding_response =
  data :: "real list list option"

text \<open>
  A metadata value of a vector match. The pipeline tests a value for being a string
  (\<open>typeof\<close>), for truthiness (\<open>filter(content => content)\<close>) and converts it to a string
  (\<open>join\<close>); a value that is not a string is represented by its truthiness and its string
  conversion.
\<close>

datatype meta_value = MString jsstring | MOther bool jsstring

fun truthy :: "meta_value \<Rightarrow> bool" where
  "truthy (MString s) = (s \<noteq> [])"
| "truthy (MOther t s) = t"

fun to_string :: "meta_value \<Rightarrow> jsstring" where
  "to_string (MString s) = s"
| "to_string (MOther t s) = s"

record metadata =
  md_content :: "meta_value option"
  md_title :: "meta_value option"

text \<open>
  A match of the vector index. A score is a double; finite doubles are reals, and for every
  double \<open>d\<close> the comparison \<open>d > 0.7\<close> of the source (against the double nearest to
  \<open>0.7\<close>, which lies below \<open>7/10\<close> with no double in between) holds exactly when
  \<open>d > 7/10\<close> holds in the reals.
\<close>

record vmatch =
  m_id :: jsstring
  m_score :: real
  m_metadata :: "metadata option"

text \<open>An interaction as the front door sends it to the history object.\<close>

record interaction =
  i_question :: "jsstring option"
  i_answer :: "jsstring option"
  i_usedRAG :: "bool option"
  i_timestamp :: "jsstring option"

text \<open>
  The bindings of \<open>Env\<close> that the pipelines call, as functions from the arguments of a call
  to its outcome: \<open>env.AI.run\<close> on the list of texts, \<open>env.VECTORIZE.query\<close> on the query
  vector and \<open>topK\<close>, and \<open>fetch\<close> on the completion endpoint.
\<close>

record env =
  ai_run :: "jsstring list \<Rightarrow> exn + embedding_response"
  vectorize_query :: "real list \<Rightarrow> real \<Rightarrow> exn + vmatch list"
  azure_fetch :: "completion_request \<Rightarrow> fetch_outcome"

text \<open>The calls a request makes to the outside, in order.\<close>

datatype call =
  AI_run "jsstring list"
| VECTORIZE_query "real list" real
| Azure_fetch completion_request
| Agent_save interaction

text \<open>
  The code shared by the three call sites (lines 86-116, 165-195, 222-252):
  \<open>fetch\<close>, then \<open>throw\<close> when \<open>!response.ok\<close>, then \<open>response.json()\<close>.
\<close>

definition response_ok :: "nat \<Rightarrow> bool" where
  "response_ok status = (200 \<le> status \<and> status \<le> 299)"

definition azure_chat :: "env \<Rightarrow> completion_request \<Rightarrow> exn + azure_response" where
  "azure_chat e rq =
     (case azure_fetch e rq of
        Rejected x \<Rightarrow> Inl x
      | Response status text json \<Rightarrow>
          if \<not> response_ok status then
            (case text of
               Inl x \<Rightarrow> Inl x
             | Inr t \<Rightarrow> Inl (Error (js ''Azure OpenAI API error: '' @ digits status @ js '' - '' @ t)))
          else json)"

text \<open>\<open>r.choices?.[0]?.message?.content || dflt\<close>\<close>

definition first_content :: "azure_response \<Rightarrow> jsstring \<Rightarrow> jsstring" where
  "first_content r dflt =
     (case choices r of
        None \<Rightarrow> dflt
      | Some [] \<Rightarrow> dflt
      | Some (c # _) \<Rightarrow>
          (case message c of
             None \<Rightarrow> dflt
           | Some m \<Rightarrow>
               (case content m of
                  None \<Rightarrow> dflt
                | Some s \<Rightarrow> if s = [] then dflt else s)))"

section \<open>The classifier: \<open>RAGAgent.shouldUseRAG\<close>\<close>

definition ragKeywords :: "jsstring list" where
  "ragKeywords =
     [js ''document'', js ''archivo'',
      js ''informaci'' @ [0xF3] @ js ''n espec'' @ [0xED] @ js ''fica'',
      js ''seg'' @ [0xFA] @ js ''n el documento'',
      js ''en la base de conocimientos'',
      js ''qu'' @ [0xE9] @ js '' dice sobre'',
      js ''buscar informaci'' @ [0xF3] @ js ''n'',
      js ''consultar'', js ''referencias'', js ''fuentes'', js ''datos almacenados'']"

definition generalKeywords :: "jsstring list" where
  "generalKeywords =
     [js ''hola'',
      js ''c'' @ [0xF3] @ js ''mo est'' @ [0xE1] @ js ''s'',
      js ''ayuda general'', js ''explicar conceptos'', js ''definir'',
      js ''c'' @ [0xF3] @ js ''mo funciona'',
      js ''qu'' @ [0xE9] @ js '' es'',
      js ''ay'' @ [0xFA] @ js ''dame a entender'']"

definition hasRagKeywords :: "(jsstring \<Rightarrow> jsstring) \<Rightarrow> jsstring \<Rightarrow> bool" where
  "hasRagKeywords lc question =
     list_ex (\<lambda>keyword. includes_js (lc question) (lc keyword)) ragKeywords"

definition hasGeneralKeywords :: "(jsstring \<Rightarrow> jsstring) \<Rightarrow> jsstring \<Rightarrow> bool" where
  "hasGeneralKeywords lc question =
     list_ex (\<lambda>keyword. includes_js (lc question) (lc keyword)) generalKeywords"

text \<open>
  The request of the forced-choice call (lines 94-108). The template \<open>decisionPrompt\<close> of
  lines 78-84 is built and never used.
\<close>

definition decision_request :: "jsstring \<Rightarrow> completion_request" where
  "decision_request question =
     \<lparr> system_content =
         js ''Decide si la pregunta requiere RAG (documentos) o GENERAL (conocimiento com''
         @ [0xFA] @ js ''n). Responde solo '' @ [0x27] @ js ''RAG'' @ [0x27] @ js '' o ''
         @ [0x27] @ js ''GENERAL'' @ [0x27] @ js ''.'',
       user_content = js ''Pregunta: '' @ [0x22] @ question @ [0x22],
       max_tokens = 10 \<rparr>"

text \<open>The body of the \<open>try\<close> block (lines 77-119): \<open>Inl\<close> is a throw.\<close>

definition forced_choice ::
  "(jsstring \<Rightarrow> jsstring) \<Rightarrow> env \<Rightarrow> jsstring \<Rightarrow> exn + bool" where
  "forced_choice lc e question =
     (case azure_chat e (decision_request question) of
        Inl x \<Rightarrow> Inl x
      | Inr decisionResponse \<Rightarrow>
          Inr (includes_js (lc (first_content decisionResponse [])) (js ''rag'')))"

text \<open>
  \<open>shouldUseRAG\<close> returns the decision (\<open>True\<close> is RAG) and the calls it made. Outside
  the \<open>try\<close> block the function only matches keywords, which cannot throw on a string.
\<close>

definition shouldUseRAG ::
  "(jsstring \<Rightarrow> jsstring) \<Rightarrow> env \<Rightarrow> jsstring \<Rightarrow> bool \<times> call list" where
  "shouldUseRAG lc e question =
     (let questionLower = lc question in
      if hasRagKeywords lc question then (True, [])
      else if hasGeneralKeywords lc question then (False, [])
      else
        (case forced_choice lc e question of
           Inr decision \<Rightarrow> (decision, [Azure_fetch (decision_request question)])
         | Inl error \<Rightarrow>
             (20 < length questionLower, [Azure_fetch (decision_request question)])))"

section \<open>The RAG pipeline: \<open>RAGAgent.processWithRAG\<close>\<close>

text \<open>\<open>match.metadata?.content\<close> and \<open>match.metadata?.title\<close>; \<open>None\<close> is \<open>undefined\<close>.\<close>

definition match_content :: "vmatch \<Rightarrow> meta_value option" where
  "match_content m = (case m_metadata m of None \<Rightarrow> None | Some md \<Rightarrow> md_content md)"

definition match_title :: "vmatch \<Rightarrow> meta_value option" where
  "match_title m = (case m_metadata m of None \<Rightarrow> None | Some md \<Rightarrow> md_title md)"

text \<open>The callback of \<open>.filter(content => content)\<close>: \<open>undefined\<close> is falsy.\<close>

definition truthy_content :: "meta_value option \<Rightarrow> bool" where
  "truthy_content c = (case c of None \<Rightarrow> False | Some v \<Rightarrow> truthy v)"

text \<open>The conversion \<open>join\<close> applies to an element: \<open>undefined\<close> gives the empty string.\<close>

definition element_string :: "meta_value option \<Rightarrow> jsstring" where
  "element_string c = (case c of None \<Rightarrow> [] | Some v \<Rightarrow> to_string v)"

text \<open>Step 3 (lines 146-150): the context blob.\<close>

definition context_blob :: "vmatch list \<Rightarrow> jsstring" where
  "context_blob matches =
     join (map element_string
            (filter truthy_content
              (map match_content
                (filter (\<lambda>match. 7 / 10 < m_score match) matches))))
          [0x0A, 0x0A]"

record source =
  src_id :: jsstring
  src_score :: real
  src_title :: "meta_value option"
  src_content :: "jsstring option"

text \<open>The callback of \<open>matches.matches.map\<close> at lines 203-210.\<close>

definition source_entry :: "vmatch \<Rightarrow> source" where
  "source_entry match =
     \<lparr> src_id = m_id match,
       src_score = m_score match,
       src_title = match_title match,
       src_content =
         (case match_content match of
            Some (MString c) \<Rightarrow> Some (substring0 c 200 @ js ''...'')
          | _ \<Rightarrow> None) \<rparr>"

record chat_result =
  r_question :: jsstring
  r_answer :: jsstring
  r_usedRAG :: bool
  r_sources :: "source list"
  r_context_used :: bool

definition no_relevant_info :: jsstring where
  "no_relevant_info =
     js ''No pude encontrar informaci'' @ [0xF3]
     @ js ''n relevante en la base de conocimientos.''"

definition no_answer :: jsstring where
  "no_answer = js ''No pude generar una respuesta.''"

definition rag_request :: "jsstring \<Rightarrow> jsstring \<Rightarrow> completion_request" where
  "rag_request context question =
     \<lparr> system_content =
         js ''Eres un asistente '' @ [0xFA] @ js ''til y creativo. Responde en espa'' @ [0xF1]
         @ js ''ol de forma clara y detallada bas'' @ [0xE1]
         @ js ''ndote en el contexto proporcionado.'',
       user_content =
         js ''Context information:'' @ [0x0A] @ context @ [0x0A, 0x0A]
         @ js ''Question: '' @ question @ [0x0A, 0x0A]
         @ js ''Please provide a helpful and accurate answer based on the context information above. If the context doesn''
         @ [0x27]
         @ js ''t contain enough information to answer the question, please say so.''
         @ [0x0A, 0x0A] @ js ''Answer:'',
       max_tokens = 300 \<rparr>"

text \<open>The \<open>catch\<close> of lines 214-217 rethrows every error under a prefix.\<close>

definition rag_failed :: "exn \<Rightarrow> exn" where
  "rag_failed x = Error (js ''RAG processing failed: '' @ error_message x)"

text \<open>
  \<open>processWithRAG\<close> returns the result (\<open>Inl\<close> is the rethrown error) and the calls made.
\<close>

definition processWithRAG ::
  "env \<Rightarrow> jsstring \<Rightarrow> real \<Rightarrow> (exn + chat_result) \<times> call list" where
  "processWithRAG e question topK =
     (case ai_run e [question] of
        Inl x \<Rightarrow> (Inl (rag_failed x), [AI_run [question]])
      | Inr queryVector \<Rightarrow>
          (case data queryVector of
             None \<Rightarrow>
               (Inl (rag_failed (Error (js ''Failed to generate query embedding''))),
                [AI_run [question]])
           | Some [] \<Rightarrow>
               (Inl (rag_failed (Error (js ''Failed to generate query embedding''))),
                [AI_run [question]])
           | Some (v # _) \<Rightarrow>
               (case vectorize_query e v topK of
                  Inl x \<Rightarrow>
                    (Inl (rag_failed x), [AI_run [question], VECTORIZE_query v topK])
                | Inr matches \<Rightarrow>
                    (let context = context_blob matches in
                     if 0 < length context then
                       (case azure_chat e (rag_request context question) of
                          Inl x \<Rightarrow>
                            (Inl (rag_failed x),
                             [AI_run [question], VECTORIZE_query v topK,
                              Azure_fetch (rag_request context question)])
                        | Inr chatResponse \<Rightarrow>
                            (Inr \<lparr> r_question = question,
                                   r_answer = first_content chatResponse no_answer,
                                   r_usedRAG = True,
                                   r_sources = map source_entry matches,
                                   r_context_used = (0 < length context) \<rparr>,
                             [AI_run [question], VECTORIZE_query v topK,
                              Azure_fetch (rag_request context question)]))
                     else
                       (Inr \<lparr> r_question = question,
                              r_answer = no_relevant_info,
                              r_usedRAG = True,
                              r_sources = map source_entry matches,
                              r_context_used = (0 < length context) \<rparr>,
                        [AI_run [question], VECTORIZE_query v topK])))))"

section \<open>The general pipeline: \<open>RAGAgent.processGeneral\<close>\<close>

definition general_request :: "jsstring \<Rightarrow> completion_request" where
  "general_request question =
     \<lparr> system_content =
         js ''Eres un asistente '' @ [0xFA] @ js ''til y creativo. Responde en espa'' @ [0xF1]
         @ js ''ol de forma clara y detallada.'',
       user_content = question,
       max_tokens = 300 \<rparr>"

definition general_failed :: "exn \<Rightarrow> exn" where
  "general_failed x = Error (js ''General processing failed: '' @ error_message x)"

definition processGeneral :: "env \<Rightarrow> jsstring \<Rightarrow> (exn + chat_result) \<times> call list" where
  "processGeneral e question =
     (case azure_chat e (general_request question) of
        Inl x \<Rightarrow> (Inl (general_failed x), [Azure_fetch (general_request question)])
      | Inr chatResponse \<Rightarrow>
          (Inr \<lparr> r_question = question,
                 r_answer = first_content chatResponse no_answer,
                 r_usedRAG = False,
                 r_sources = [],
                 r_context_used = False \<rparr>,
           [Azure_fetch (general_request question)]))"

section \<open>Responses\<close>

text \<open>
  The body of the 200 reply of \<open>/chat\<close>: the fields of the pipeline's result (the spread
  \<open>...result\<close>) with \<open>agentDecision\<close> and \<open>timestamp\<close>.
\<close>

record chat_reply = chat_result +
  agentDecision :: jsstring
  timestamp :: jsstring

record stats =
  totalInteractions :: nat
  ragUsage :: nat
  generalUsage :: nat
  ragPercentage :: int

text \<open>
  What a handler puts into a \<open>Response\<close>: \<open>null\<close>, a text, or the object given to
  \<open>Response.json\<close> (one constructor for each shape the embedded handlers build;
  \<open>Error_body\<close> is \<open>{error, details}\<close>, with \<open>details\<close> absent where the source gives
  none).
\<close>

datatype body =
  Null_body
| Text_body jsstring
| Error_body jsstring "jsstring option"
| Chat_body chat_reply
| History_body "interaction list"
| Saved_body bool nat
| Stats_body stats

record response =
  status :: nat
  headers :: "(string \<times> string) list"
  body :: body

definition corsHeaders :: "(string \<times> string) list" where
  "corsHeaders =
     [(''Access-Control-Allow-Origin'', ''*''),
      (''Access-Control-Allow-Methods'', ''GET, POST, PUT, DELETE, OPTIONS''),
      (''Access-Control-Allow-Headers'', ''Content-Type'')]"

section \<open>The front door: the \<open>fetch\<close> handler of the worker\<close>

text \<open>
  The body of a \<open>/chat\<close> request after \<open>await request.json()\<close>, at the type the source
  gives it (\<open>question: string; topK?: number; forceRAG?: boolean\<close>); \<open>None\<close> is an absent
  field. \<open>request.json()\<close> itself may reject.
\<close>

record chat_params =
  question :: "jsstring option"
  topK :: "real option"
  forceRAG :: "bool option"

record request =
  req_method :: jsstring
  req_path :: jsstring
  req_json :: "exn + chat_params"

text \<open>
  The handlers whose bodies are not embedded here; \<open>fetch\<close> below says when each is
  reached.
\<close>

datatype handler =
  Insert | Search | AgentStatus | AgentHistory | AgentStats | AgentTest | Health | Discovery

datatype fetch_result =
  Replied response "call list"
| Dispatched handler

text \<open>
  The \<open>/chat\<close> branch (lines 294-355). \<open>t_save\<close> and \<open>t_reply\<close> are the two readings of
  the clock (\<open>new Date().toISOString()\<close>). The save to the history object is attempted after
  a pipeline has returned; what it answers is not read and a failure of it is swallowed, so
  only the attempt is recorded.
\<close>

definition chat ::
  "(jsstring \<Rightarrow> jsstring) \<Rightarrow> env \<Rightarrow> jsstring \<Rightarrow> jsstring \<Rightarrow> exn + chat_params
     \<Rightarrow> response \<times> call list" where
  "chat lc e t_save t_reply json =
     (case json of
        Inl x \<Rightarrow>
          (\<lparr> status = 500, headers = corsHeaders,
             body = Error_body (js ''Failed to process chat request'') (Some (error_message x)) \<rparr>,
           [])
      | Inr params \<Rightarrow>
          (case question params of
             None \<Rightarrow>
               (\<lparr> status = 400, headers = corsHeaders,
                  body = Error_body (js ''Question is required'') None \<rparr>, [])
           | Some q \<Rightarrow>
               if q = [] then
                 (\<lparr> status = 400, headers = corsHeaders,
                    body = Error_body (js ''Question is required'') None \<rparr>, [])
               else
                 (let k = (case topK params of None \<Rightarrow> 3 | Some k \<Rightarrow> k);
                      force = (case forceRAG params of None \<Rightarrow> False | Some b \<Rightarrow> b);
                      decided = (if force then (True, []) else shouldUseRAG lc e q);
                      useRAG = fst decided;
                      ran = (if useRAG then processWithRAG e q k else processGeneral e q)
                  in case fst ran of
                       Inl x \<Rightarrow>
                         (\<lparr> status = 500, headers = corsHeaders,
                            body = Error_body (js ''Failed to process chat request'')
                                     (Some (error_message x)) \<rparr>,
                          snd decided @ snd ran)
                     | Inr result \<Rightarrow>
                         (\<lparr> status = 200, headers = corsHeaders,
                            body = Chat_body
                              (chat_result.extend result
                                 \<lparr> agentDecision = (if useRAG then js ''RAG'' else js ''GENERAL''),
                                   timestamp = t_reply \<rparr>) \<rparr>,
                          snd decided @ snd ran
                          @ [Agent_save \<lparr> i_question = Some (r_question result),
                                           i_answer = Some (r_answer result),
                                           i_usedRAG = Some (r_usedRAG result),
                                           i_timestamp = Some t_save \<rparr>]))))"

text \<open>The chain of tests of lines 272-588, in the order of the source.\<close>

definition fetch ::
  "(jsstring \<Rightarrow> jsstring) \<Rightarrow> env \<Rightarrow> jsstring \<Rightarrow> jsstring \<Rightarrow> request \<Rightarrow> fetch_result" where
  "fetch lc e t_save t_reply request =
     (let path = req_path request in
      if prefix (js ''/favicon'') path then
        Replied \<lparr> status = 404, headers = [], body = Text_body [] \<rparr> []
      else if req_method request = js ''OPTIONS'' then
        Replied \<lparr> status = 200, headers = corsHeaders, body = Null_body \<rparr> []
      else if path = js ''/chat'' \<and> req_method request = js ''POST'' then
        (case chat lc e t_save t_reply (req_json request) of (r, calls) \<Rightarrow> Replied r calls)
      else if path = js ''/insert'' \<and> req_method request = js ''POST'' then Dispatched Insert
      else if path = js ''/search'' \<and> req_method request = js ''POST'' then Dispatched Search
      else if path = js ''/agent/status'' then Dispatched AgentStatus
      else if path = js ''/agent/history'' then Dispatched AgentHistory
      else if path = js ''/agent/stats'' then Dispatched AgentStats
      else if path = js ''/agent/test'' \<and> req_method request = js ''POST'' then
        Dispatched AgentTest
      else if path = js ''/health'' then Dispatched Health
      else Dispatched Discovery)"

section \<open>The history object: \<open>MyAgent.fetch\<close>\<close>

text \<open>
  The storage holds one key, \<open>chat_history\<close>; \<open>None\<close> is the key never written. A call of
  \<open>storage.get\<close> or \<open>storage.put\<close> may reject, which \<open>faults\<close> says for the request at
  hand.
\<close>

record faults =
  get_fault :: "exn option"
  put_fault :: "exn option"

record do_request =
  do_method :: jsstring
  do_path :: jsstring
  do_json :: "exn + interaction"

text \<open>\<open>history.slice(-n)\<close>: the last \<open>n\<close> elements, all of them when there are fewer.\<close>

definition slice_last :: "nat \<Rightarrow> 'a list \<Rightarrow> 'a list" where
  "slice_last n xs = drop (length xs - n) xs"

text \<open>The truthiness of \<open>item.usedRAG\<close>.\<close>

definition usedRAG_truthy :: "interaction \<Rightarrow> bool" where
  "usedRAG_truthy item = (case i_usedRAG item of None \<Rightarrow> False | Some b \<Rightarrow> b)"

text \<open>
  Lines 665-674. \<open>percent r n\<close> stands for the double arithmetic
  \<open>Math.round((r / n) * 100)\<close>, which the source evaluates only under the guard
  \<open>history.length > 0\<close>.
\<close>

definition compute_stats :: "(nat \<Rightarrow> nat \<Rightarrow> int) \<Rightarrow> interaction list \<Rightarrow> stats" where
  "compute_stats percent history =
     (let ragUsage = length (filter (\<lambda>item. usedRAG_truthy item) history);
          generalUsage = length (filter (\<lambda>item. \<not> usedRAG_truthy item) history)
      in \<lparr> totalInteractions = length history,
           ragUsage = ragUsage,
           generalUsage = generalUsage,
           ragPercentage = (if 0 < length history then percent ragUsage (length history) else 0) \<rparr>)"

definition do_error :: "string \<Rightarrow> exn \<Rightarrow> response" where
  "do_error what x =
     \<lparr> status = 500, headers = corsHeaders,
       body = Error_body (js what) (Some (error_message x)) \<rparr>"

text \<open>\<open>MyAgent.fetch\<close> returns the response and the storage after the request.\<close>

definition MyAgent_fetch ::
  "(nat \<Rightarrow> nat \<Rightarrow> int) \<Rightarrow> faults \<Rightarrow> interaction list option \<Rightarrow> do_request
     \<Rightarrow> response \<times> interaction list option" where
  "MyAgent_fetch percent f chat_history request =
     (let path = do_path request; stored = (case chat_history of None \<Rightarrow> [] | Some h \<Rightarrow> h) in
      if do_method request = js ''OPTIONS'' then
        (\<lparr> status = 200, headers = corsHeaders, body = Null_body \<rparr>, chat_history)
      else if path = js ''/history'' \<and> do_method request = js ''GET'' then
        (case get_fault f of
           Some x \<Rightarrow> (do_error ''Failed to retrieve history'' x, chat_history)
         | None \<Rightarrow>
             (\<lparr> status = 200, headers = corsHeaders, body = History_body stored \<rparr>,
              chat_history))
      else if path = js ''/save'' \<and> do_method request = js ''POST'' then
        (case do_json request of
           Inl x \<Rightarrow> (do_error ''Failed to save to history'' x, chat_history)
         | Inr record \<Rightarrow>
             (case get_fault f of
                Some x \<Rightarrow> (do_error ''Failed to save to history'' x, chat_history)
              | None \<Rightarrow>
                  (let pushed = stored @ [record];
                       history = (if 100 < length pushed then slice_last 100 pushed else pushed)
                   in case put_fault f of
                        Some x \<Rightarrow> (do_error ''Failed to save to history'' x, chat_history)
                      | None \<Rightarrow>
                          (\<lparr> status = 200, headers = corsHeaders,
                             body = Saved_body True (length history) \<rparr>,
                           Some history))))
      else if path = js ''/stats'' \<and> do_method request = js ''GET'' then
        (case get_fault f of
           Some x \<Rightarrow> (do_error ''Failed to get stats'' x, chat_history)
         | None \<Rightarrow>
             (\<lparr> status = 200, headers = corsHeaders,
                body = Stats_body (compute_stats percent stored) \<rparr>,
              chat_history))
      else
        (\<lparr> status = 404, headers = corsHeaders, body = Error_body (js ''Not found'') None \<rparr>,
         chat_history))"

section \<open>Concrete services and inputs\<close>

text \<open>An environment in which every outside service fails.\<close>

definition env_down :: env where
  "env_down =
     \<lparr> ai_run = (\<lambda>_. Inl (Error (js ''AI down''))),
       vectorize_query = (\<lambda>_ _. Inl (Error (js ''index down''))),
       azure_fetch = (\<lambda>_. Rejected (Error (js ''network''))) \<rparr>"

text \<open>
  A 250-unit and a 50-unit content, three matches (above the threshold, exactly on it, below
  it with a content that is not a string), and services that answer.
\<close>

definition long_content :: jsstring where
  "long_content = replicate 250 0x61"

definition short_content :: jsstring where
  "short_content = replicate 50 0x62"

definition match_a :: vmatch where
  "match_a =
     \<lparr> m_id = js ''doc-a'', m_score = 9 / 10,
       m_metadata = Some \<lparr> md_content = Some (MString long_content),
                            md_title = Some (MString (js ''A'')) \<rparr> \<rparr>"

definition match_b :: vmatch where
  "match_b =
     \<lparr> m_id = js ''doc-b'', m_score = 7 / 10,
       m_metadata = Some \<lparr> md_content = Some (MString short_content), md_title = None \<rparr> \<rparr>"

definition match_c :: vmatch where
  "match_c =
     \<lparr> m_id = js ''doc-c'', m_score = 1 / 2,
       m_metadata = Some \<lparr> md_content = Some (MOther True (js ''42'')), md_title = None \<rparr> \<rparr>"

definition demo_matches :: "vmatch list" where
  "demo_matches = [match_a, match_b, match_c]"

definition demo_response :: azure_response where
  "demo_response =
     \<lparr> choices = Some [\<lparr> message = Some \<lparr> content = Some (js ''respuesta'') \<rparr> \<rparr>] \<rparr>"

definition env_demo :: env where
  "env_demo =
     \<lparr> ai_run = (\<lambda>_. Inr \<lparr> data = Some [[1 / 10, 2 / 10]] \<rparr>),
       vectorize_query = (\<lambda>_ _. Inr demo_matches),
       azure_fetch = (\<lambda>_. Response 200 (Inr []) (Inr demo_response)) \<rparr>"

definition env_low :: env where
  "env_low =
     \<lparr> ai_run = (\<lambda>_. Inr \<lparr> data = Some [[1 / 10, 2 / 10]] \<rparr>),
       vectorize_query = (\<lambda>_ _. Inr (tl demo_matches)),
       azure_fetch = (\<lambda>_. Response 200 (Inr []) (Inr demo_response)) \<rparr>"

definition demo_result :: chat_result where
  "demo_result =
     \<lparr> r_question = js ''hola'', r_answer = js ''respuesta'', r_usedRAG = True,
       r_sources = map source_entry demo_matches, r_context_used = True \<rparr>"

definition demo_calls :: "call list" where
  "demo_calls =
     [AI_run [js ''hola''], VECTORIZE_query [1 / 10, 2 / 10] 3,
      Azure_fetch (rag_request long_content (js ''hola''))]"

definition chat_forced :: request where
  "chat_forced =
     \<lparr> req_method = js ''POST'', req_path = js ''/chat'',
       req_json = Inr \<lparr> question = Some (js ''hola''), topK = None, forceRAG = Some True \<rparr> \<rparr>"

text \<open>A history of 100 records, a record to save, and a storage without faults.\<close>

definition old_entry :: interaction where
  "old_entry =
     \<lparr> i_question = Some (js ''q0''), i_answer = Some (js ''a0''), i_usedRAG = Some False,
       i_timestamp = Some (js ''t0'') \<rparr>"

definition kept_entry :: interaction where
  "kept_entry =
     \<lparr> i_question = Some (js ''q1''), i_answer = Some (js ''a1''), i_usedRAG = Some True,
       i_timestamp = Some (js ''t1'') \<rparr>"

definition new_entry :: interaction where
  "new_entry =
     \<lparr> i_question = Some (js ''q2''), i_answer = Some (js ''a2''), i_usedRAG = Some True,
       i_timestamp = Some (js ''t2'') \<rparr>"

definition full_history :: "interaction list" where
  "full_history = old_entry # replicate 99 kept_entry"

definition save_request :: do_request where
  "save_request =
     \<lparr> do_method = js ''POST'', do_path = js ''/save'', do_json = Inr new_entry \<rparr>"

definition no_faults :: faults where
  "no_faults = \<lparr> get_fault = None, put_fault = None \<rparr>"

section \<open>Properties\<close>

subsection \<open>Strings\<close>

lemma includes_iff_sublist: "includes_js s k \<longleftrightarrow> sublist k s"
  by (induction s) (simp_all add: sublist_Cons_right)

lemma of_char_lt: "(of_char c :: nat) < 256"
  by (metis char_of_char mod_less_divisor of_char_of zero_less_numeral)

lemma unat_of_char: "unat (of_char c :: 16 word) = of_char c"
proof -
  have "(of_char c :: 16 word) = of_nat (of_char c)"
    by (simp add: of_nat_of_char)
  moreover have "(of_char c :: nat) < 2 ^ 16"
    by (rule less_trans [OF of_char_lt]) simp
  ultimately show ?thesis
    by (simp add: unat_of_nat take_bit_nat_eq_self)
qed

lemma of_char_word_inj: "(of_char c :: 16 word) = of_char d \<longleftrightarrow> c = d"
  by (metis unat_of_char of_char_eq_iff)

lemma js_eq_iff: "js a = js b \<longleftrightarrow> a = b"
  unfolding js_def by (rule inj_map_eq_map) (simp add: inj_def of_char_word_inj)

lemma prefix_js_iff: "prefix (js a) (js b) \<longleftrightarrow> prefix a b"
  unfolding js_def
  by (metis (no_types, lifting) inj_def inj_map_eq_map map_mono_prefix of_char_word_inj
      prefix_map_rightE)

subsection \<open>The classifier\<close>

text \<open>
  C7. Whenever the lower-cased question contains the lower-cased form of one of the RAG
  keywords, \<open>shouldUseRAG\<close> answers RAG and calls no service, whatever else the question
  contains (general-conversation keywords included) and whatever the completion endpoint
  would answer.
\<close>

theorem rag_keyword_wins:
  assumes "keyword \<in> set ragKeywords" and "sublist (lc keyword) (lc q)"
  shows "shouldUseRAG lc e q = (True, [])"
proof -
  have "hasRagKeywords lc q"
    unfolding hasRagKeywords_def list_ex_iff includes_iff_sublist using assms by blast
  then show ?thesis by (simp add: shouldUseRAG_def)
qed

text \<open>
  At \<open>Hola, CONSULTAR\<close>, which holds the general keyword \<open>hola\<close> and, in upper case, the
  RAG keyword \<open>consultar\<close>.
\<close>

theorem rag_keyword_wins_witness:
  "js ''consultar'' \<in> set ragKeywords
   \<and> sublist (lowerBasicLatin (js ''consultar'')) (lowerBasicLatin (js ''Hola, CONSULTAR''))
   \<and> hasGeneralKeywords lowerBasicLatin (js ''Hola, CONSULTAR'')
   \<and> shouldUseRAG lowerBasicLatin env_down (js ''Hola, CONSULTAR'') = (True, [])"
proof -
  have k: "js ''consultar'' \<in> set ragKeywords"
    by (simp add: ragKeywords_def)
  have s: "sublist (lowerBasicLatin (js ''consultar'')) (lowerBasicLatin (js ''Hola, CONSULTAR''))"
    by (simp add: lowerBasicLatin_def js_def sublist_Cons_right)
  have g: "hasGeneralKeywords lowerBasicLatin (js ''Hola, CONSULTAR'')"
    by (simp add: hasGeneralKeywords_def generalKeywords_def lowerBasicLatin_def js_def)
  from rag_keyword_wins [OF k s, of env_down] k s g show ?thesis
    by blast
qed

lemma capital_no_rag: "\<not> hasRagKeywords lowerBasicLatin (js ''Capital of France, please?'')"
  by code_simp

lemma capital_no_general:
  "\<not> hasGeneralKeywords lowerBasicLatin (js ''Capital of France, please?'')"
  by code_simp

lemma paris_no_rag: "\<not> hasRagKeywords lowerBasicLatin (js ''Paris?'')"
  by code_simp

lemma paris_no_general: "\<not> hasGeneralKeywords lowerBasicLatin (js ''Paris?'')"
  by code_simp

text \<open>
  C6. Whenever \<open>shouldUseRAG\<close> makes the forced-choice call and the call fails (the
  \<open>fetch\<close> rejects, or the status is outside 200..299, or the body does not parse), the
  classifier returns a decision, and the decision is RAG exactly when the lower-cased
  question is longer than 20 code units. The function returns a value on every string:
  its result type has no error branch, since outside the \<open>try\<close> block the source only
  matches keywords.
\<close>

theorem classifier_fallback:
  assumes made: "Azure_fetch (decision_request q) \<in> set (snd (shouldUseRAG lc e q))"
    and failed: "case azure_fetch e (decision_request q) of
                   Rejected x \<Rightarrow> True
                 | Response code txt parsed \<Rightarrow> \<not> response_ok code \<or> isl parsed"
  shows "fst (shouldUseRAG lc e q) = (20 < length (lc q))"
proof -
  from failed have "isl (azure_chat e (decision_request q))"
    by (auto simp: azure_chat_def split: fetch_outcome.splits sum.splits)
  then have "isl (forced_choice lc e q)"
    by (auto simp: forced_choice_def split: sum.splits)
  with made show ?thesis
    by (auto simp: shouldUseRAG_def Let_def split: if_splits sum.splits)
qed

text \<open>A question of 26 code units and one of 6, with the endpoint unreachable.\<close>

theorem classifier_fallback_witness:
  "Azure_fetch (decision_request (js ''Capital of France, please?''))
     \<in> set (snd (shouldUseRAG lowerBasicLatin env_down (js ''Capital of France, please?'')))
   \<and> azure_fetch env_down (decision_request (js ''Capital of France, please?''))
       = Rejected (Error (js ''network''))
   \<and> fst (shouldUseRAG lowerBasicLatin env_down (js ''Capital of France, please?''))
   \<and> (20 :: nat) < length (lowerBasicLatin (js ''Capital of France, please?''))
   \<and> Azure_fetch (decision_request (js ''Paris?''))
     \<in> set (snd (shouldUseRAG lowerBasicLatin env_down (js ''Paris?'')))
   \<and> \<not> fst (shouldUseRAG lowerBasicLatin env_down (js ''Paris?''))
   \<and> \<not> (20 :: nat) < length (lowerBasicLatin (js ''Paris?''))"
proof -
  have made: "Azure_fetch (decision_request (js ''Capital of France, please?''))
     \<in> set (snd (shouldUseRAG lowerBasicLatin env_down (js ''Capital of France, please?'')))"
    by (simp add: shouldUseRAG_def capital_no_rag capital_no_general split: sum.splits)
  have made': "Azure_fetch (decision_request (js ''Paris?''))
     \<in> set (snd (shouldUseRAG lowerBasicLatin env_down (js ''Paris?'')))"
    by (simp add: shouldUseRAG_def paris_no_rag paris_no_general split: sum.splits)
  have out: "azure_fetch env_down (decision_request (js ''Capital of France, please?''))
       = Rejected (Error (js ''network''))"
    and out': "azure_fetch env_down (decision_request (js ''Paris?''))
       = Rejected (Error (js ''network''))"
    by (simp_all add: env_down_def)
  have long: "(20 :: nat) < length (lowerBasicLatin (js ''Capital of France, please?''))"
    and short: "\<not> (20 :: nat) < length (lowerBasicLatin (js ''Paris?''))"
    by (simp_all add: lowerBasicLatin_def js_def)
  have "fst (shouldUseRAG lowerBasicLatin env_down (js ''Capital of France, please?''))"
    using classifier_fallback [OF made] out long by simp
  moreover have "\<not> fst (shouldUseRAG lowerBasicLatin env_down (js ''Paris?''))"
    using classifier_fallback [OF made'] out' short by simp
  ultimately show ?thesis using made made' out long short
    by blast
qed

subsection \<open>The RAG pipeline\<close>

text \<open>What the pipeline does once the embedding and the query have answered.\<close>

lemma processWithRAG_after_query:
  assumes "ai_run e [q] = Inr emb" and "data emb = Some (v # vs)"
    and "vectorize_query e v k = Inr ms"
  shows "processWithRAG e q k =
     (if context_blob ms = [] then
        (Inr \<lparr> r_question = q, r_answer = no_relevant_info, r_usedRAG = True,
               r_sources = map source_entry ms, r_context_used = False \<rparr>,
         [AI_run [q], VECTORIZE_query v k])
      else
        (case azure_chat e (rag_request (context_blob ms) q) of
           Inl x \<Rightarrow>
             (Inl (rag_failed x),
              [AI_run [q], VECTORIZE_query v k, Azure_fetch (rag_request (context_blob ms) q)])
         | Inr chatResponse \<Rightarrow>
             (Inr \<lparr> r_question = q, r_answer = first_content chatResponse no_answer,
                    r_usedRAG = True, r_sources = map source_entry ms,
                    r_context_used = True \<rparr>,
              [AI_run [q], VECTORIZE_query v k, Azure_fetch (rag_request (context_blob ms) q)])))"
  using assms by (simp add: processWithRAG_def Let_def split: sum.splits)

lemma processWithRAG_usedRAG:
  assumes "processWithRAG e q k = (Inr r, calls)"
  shows "r_usedRAG r"
  using assms
  by (auto simp: processWithRAG_def Let_def split: sum.splits option.splits list.splits if_splits)


lemma context_blob_none_clears:
  "list_all (\<lambda>m. m_score m \<le> 7 / 10) ms \<Longrightarrow> context_blob ms = []"
  by (induction ms) (simp_all add: context_blob_def)

lemma src_content_source_entry:
  "src_content (source_entry m) =
     (case match_content m of
        Some (MString c) \<Rightarrow> Some (if 200 < length c then take 200 c @ js ''...'' else c @ js ''...'')
      | _ \<Rightarrow> None)"
  by (simp add: source_entry_def substring0_def split: option.splits meta_value.splits)

lemma demo_context: "context_blob demo_matches = long_content"
  by (simp add: context_blob_def demo_matches_def match_a_def match_b_def match_c_def
      match_content_def truthy_content_def element_string_def long_content_def)

lemma low_context: "context_blob (tl demo_matches) = []"
  by (simp add: context_blob_def demo_matches_def match_b_def match_c_def)

lemma demo_run: "processWithRAG env_demo (js ''hola'') 3 = (Inr demo_result, demo_calls)"
proof -
  have "ai_run env_demo [js ''hola''] = Inr \<lparr> data = Some [[1 / 10, 2 / 10]] \<rparr>"
    and "data \<lparr> data = Some [[1 / 10, 2 / 10]] \<rparr> = Some ([1 / 10, 2 / 10] # [])"
    and "vectorize_query env_demo [1 / 10, 2 / 10] 3 = Inr demo_matches"
    by (simp_all add: env_demo_def)
  from processWithRAG_after_query [OF this] show ?thesis
    by (simp add: demo_context demo_result_def demo_calls_def long_content_def env_demo_def
        azure_chat_def response_ok_def first_content_def demo_response_def js_def)
qed

text \<open>
  C1 (as the code has it). In the sources of a result of the RAG pipeline, the entry of
  a match whose metadata content is a string \<open>c\<close> carries the first 200 code units of
  \<open>c\<close> followed by \<open>...\<close> when \<open>c\<close> is longer than 200 code units, and \<open>c\<close> itself
  followed by \<open>...\<close> when it is not: the ellipsis is appended in both cases. When the
  content is absent or not a string, the entry has no content (\<open>undefined\<close>).
\<close>

theorem source_preview:
  assumes "ai_run e [q] = Inr emb" and "data emb = Some (v # vs)"
    and "vectorize_query e v k = Inr ms"
    and "processWithRAG e q k = (Inr r, calls)"
    and "i < length ms"
  shows "src_content (r_sources r ! i) =
     (case match_content (ms ! i) of
        Some (MString c) \<Rightarrow> Some (if 200 < length c then take 200 c @ js ''...'' else c @ js ''...'')
      | _ \<Rightarrow> None)"
proof -
  have "r_sources r = map source_entry ms"
    using assms(4) unfolding processWithRAG_after_query [OF assms(1-3)]
    by (auto split: if_splits sum.splits)
  with assms(5) show ?thesis
    by (simp add: src_content_source_entry)
qed

text \<open>The three matches: 250 units of content, 50 units, and a content that is no string.\<close>

theorem source_preview_witness:
  "ai_run env_demo [js ''hola''] = Inr \<lparr> data = Some [[1 / 10, 2 / 10]] \<rparr>
   \<and> data \<lparr> data = Some [[1 / 10, 2 / 10]] \<rparr> = Some ([1 / 10, 2 / 10] # [])
   \<and> vectorize_query env_demo [1 / 10, 2 / 10] 3 = Inr demo_matches
   \<and> processWithRAG env_demo (js ''hola'') 3 = (Inr demo_result, demo_calls)
   \<and> (0 :: nat) < length demo_matches \<and> (1 :: nat) < length demo_matches
   \<and> (2 :: nat) < length demo_matches
   \<and> src_content (r_sources demo_result ! 0) = Some (replicate 200 0x61 @ js ''...'')
   \<and> src_content (r_sources demo_result ! 1) = Some (replicate 50 0x62 @ js ''...'')
   \<and> src_content (r_sources demo_result ! 2) = None"
proof -
  have e: "ai_run env_demo [js ''hola''] = Inr \<lparr> data = Some [[1 / 10, 2 / 10]] \<rparr>"
    and d: "data \<lparr> data = Some [[1 / 10, 2 / 10]] \<rparr> = Some ([1 / 10, 2 / 10] # [])"
    and v: "vectorize_query env_demo [1 / 10, 2 / 10] 3 = Inr demo_matches"
    by (simp_all add: env_demo_def)
  have i: "(0 :: nat) < length demo_matches" "(1 :: nat) < length demo_matches"
    "(2 :: nat) < length demo_matches"
    by (simp_all add: demo_matches_def)
  have "src_content (r_sources demo_result ! 0) = Some (replicate 200 0x61 @ js ''...'')"
    using source_preview [OF e d v demo_run i(1)]
    by (simp add: demo_matches_def match_a_def match_content_def long_content_def)
  moreover have "src_content (r_sources demo_result ! 1) = Some (replicate 50 0x62 @ js ''...'')"
    using source_preview [OF e d v demo_run i(2)]
    by (simp add: demo_matches_def match_b_def match_content_def short_content_def)
  moreover have "src_content (r_sources demo_result ! 2) = None"
    using source_preview [OF e d v demo_run i(3)]
    by (simp add: demo_matches_def match_c_def match_content_def)
  ultimately show ?thesis using e d v demo_run i by blast
qed

text \<open>
  C1 as stated fails: the content of 50 code units is not returned verbatim, it comes
  back with the ellipsis appended.
\<close>

theorem source_preview_counterexample:
  "length short_content \<le> 200
   \<and> match_content match_b = Some (MString short_content)
   \<and> processWithRAG env_demo (js ''hola'') 3 = (Inr demo_result, demo_calls)
   \<and> src_content (r_sources demo_result ! 1) = Some (short_content @ js ''...'')
   \<and> src_content (r_sources demo_result ! 1) \<noteq> Some short_content"
  using demo_run
  by (simp add: demo_result_def demo_matches_def match_b_def match_content_def
      source_entry_def substring0_def short_content_def js_def)



text \<open>
  C5. Whenever the embedding and the query have answered and the context blob assembled
  from the matches is empty (as it is when no match clears the threshold, see
  \<open>context_blob_none_clears\<close>), the pipeline returns the fixed answer
  \<open>no_relevant_info\<close> with \<open>context_used\<close> false, and the calls it made are the embedding
  and the query only: the completion endpoint is not called.
\<close>

theorem empty_context_skips_completion:
  assumes "ai_run e [q] = Inr emb" and "data emb = Some (v # vs)"
    and "vectorize_query e v k = Inr ms"
    and "context_blob ms = []"
  shows "processWithRAG e q k =
     (Inr \<lparr> r_question = q, r_answer = no_relevant_info, r_usedRAG = True,
            r_sources = map source_entry ms, r_context_used = False \<rparr>,
      [AI_run [q], VECTORIZE_query v k])"
  using assms(4) unfolding processWithRAG_after_query [OF assms(1-3)] by simp

theorem empty_context_skips_completion_witness:
  "ai_run env_low [js ''hola''] = Inr \<lparr> data = Some [[1 / 10, 2 / 10]] \<rparr>
   \<and> data \<lparr> data = Some [[1 / 10, 2 / 10]] \<rparr> = Some ([1 / 10, 2 / 10] # [])
   \<and> vectorize_query env_low [1 / 10, 2 / 10] 3 = Inr [match_b, match_c]
   \<and> context_blob [match_b, match_c] = []
   \<and> processWithRAG env_low (js ''hola'') 3 =
     (Inr \<lparr> r_question = js ''hola'', r_answer = no_relevant_info, r_usedRAG = True,
            r_sources = map source_entry [match_b, match_c], r_context_used = False \<rparr>,
      [AI_run [js ''hola''], VECTORIZE_query [1 / 10, 2 / 10] 3])"
proof -
  have e: "ai_run env_low [js ''hola''] = Inr \<lparr> data = Some [[1 / 10, 2 / 10]] \<rparr>"
    and d: "data \<lparr> data = Some [[1 / 10, 2 / 10]] \<rparr> = Some ([1 / 10, 2 / 10] # [])"
    and v: "vectorize_query env_low [1 / 10, 2 / 10] 3 = Inr [match_b, match_c]"
    by (simp_all add: env_low_def demo_matches_def)
  have c: "context_blob [match_b, match_c] = []"
    using low_context by (simp add: demo_matches_def)
  from empty_context_skips_completion [OF e d v c] e d v c show ?thesis
    by blast
qed

subsection \<open>The front door\<close>

text \<open>
  C2 (as the code has it). The test for a path that starts with \<open>/favicon\<close> comes before
  the test for \<open>OPTIONS\<close>. For every request whose method is \<open>OPTIONS\<close> and whose path does
  not start with \<open>/favicon\<close>, the front door replies with status 200, a \<open>null\<close> body and
  the CORS headers only, and calls no outside service. Every request whose path starts with
  \<open>/favicon\<close> is answered 404 with an empty text body and no header of the handler's,
  whatever its method (\<open>OPTIONS\<close> included), and calls no outside service either.
\<close>

theorem options_preflight:
  "(req_method rq = js ''OPTIONS'' \<and> \<not> prefix (js ''/favicon'') (req_path rq) \<longrightarrow>
      fetch lc e t_save t_reply rq
      = Replied \<lparr> status = 200, headers = corsHeaders, body = Null_body \<rparr> [])
   \<and> (prefix (js ''/favicon'') (req_path rq) \<longrightarrow>
      fetch lc e t_save t_reply rq
      = Replied \<lparr> status = 404, headers = [], body = Text_body [] \<rparr> [])"
  by (simp add: fetch_def)

text \<open>
  An \<open>OPTIONS\<close> request for \<open>/chat\<close>, and a \<open>GET\<close> and a \<open>POST\<close> request for
  \<open>/favicon.ico\<close>.
\<close>

theorem options_preflight_witness:
  "req_method \<lparr> req_method = js ''OPTIONS'', req_path = js ''/chat'', req_json = Inl Thrown \<rparr>
     = js ''OPTIONS''
   \<and> \<not> prefix (js ''/favicon'')
         (req_path \<lparr> req_method = js ''OPTIONS'', req_path = js ''/chat'', req_json = Inl Thrown \<rparr>)
   \<and> fetch lowerBasicLatin env_down [] []
         \<lparr> req_method = js ''OPTIONS'', req_path = js ''/chat'', req_json = Inl Thrown \<rparr>
       = Replied \<lparr> status = 200, headers = corsHeaders, body = Null_body \<rparr> []
   \<and> prefix (js ''/favicon'')
         (req_path \<lparr> req_method = js ''GET'', req_path = js ''/favicon.ico'', req_json = Inl Thrown \<rparr>)
   \<and> fetch lowerBasicLatin env_down [] []
         \<lparr> req_method = js ''GET'', req_path = js ''/favicon.ico'', req_json = Inl Thrown \<rparr>
       = Replied \<lparr> status = 404, headers = [], body = Text_body [] \<rparr> []
   \<and> prefix (js ''/favicon'')
         (req_path \<lparr> req_method = js ''POST'', req_path = js ''/favicon.ico'', req_json = Inl Thrown \<rparr>)
   \<and> fetch lowerBasicLatin env_down [] []
         \<lparr> req_method = js ''POST'', req_path = js ''/favicon.ico'', req_json = Inl Thrown \<rparr>
       = Replied \<lparr> status = 404, headers = [], body = Text_body [] \<rparr> []"
proof -
  have m: "req_method \<lparr> req_method = js ''OPTIONS'', req_path = js ''/chat'', req_json = Inl Thrown \<rparr>
             = js ''OPTIONS''"
    by simp
  have n: "\<not> prefix (js ''/favicon'')
         (req_path \<lparr> req_method = js ''OPTIONS'', req_path = js ''/chat'', req_json = Inl Thrown \<rparr>)"
    by (simp add: prefix_js_iff)
  have g: "prefix (js ''/favicon'')
         (req_path \<lparr> req_method = js ''GET'', req_path = js ''/favicon.ico'', req_json = Inl Thrown \<rparr>)"
    and p: "prefix (js ''/favicon'')
         (req_path \<lparr> req_method = js ''POST'', req_path = js ''/favicon.ico'', req_json = Inl Thrown \<rparr>)"
    by (simp_all add: prefix_js_iff)
  have "fetch lowerBasicLatin env_down [] []
         \<lparr> req_method = js ''OPTIONS'', req_path = js ''/chat'', req_json = Inl Thrown \<rparr>
       = Replied \<lparr> status = 200, headers = corsHeaders, body = Null_body \<rparr> []"
    using options_preflight
      [of "\<lparr> req_method = js ''OPTIONS'', req_path = js ''/chat'', req_json = Inl Thrown \<rparr>"
          lowerBasicLatin env_down "[]" "[]"] m n
    by blast
  moreover have "fetch lowerBasicLatin env_down [] []
         \<lparr> req_method = js ''GET'', req_path = js ''/favicon.ico'', req_json = Inl Thrown \<rparr>
       = Replied \<lparr> status = 404, headers = [], body = Text_body [] \<rparr> []"
    using options_preflight
      [of "\<lparr> req_method = js ''GET'', req_path = js ''/favicon.ico'', req_json = Inl Thrown \<rparr>"
          lowerBasicLatin env_down "[]" "[]"] g
    by blast
  moreover have "fetch lowerBasicLatin env_down [] []
         \<lparr> req_method = js ''POST'', req_path = js ''/favicon.ico'', req_json = Inl Thrown \<rparr>
       = Replied \<lparr> status = 404, headers = [], body = Text_body [] \<rparr> []"
    using options_preflight
      [of "\<lparr> req_method = js ''POST'', req_path = js ''/favicon.ico'', req_json = Inl Thrown \<rparr>"
          lowerBasicLatin env_down "[]" "[]"] p
    by blast
  ultimately show ?thesis using m n g p
    by blast
qed

text \<open>
  C2 as stated fails: an \<open>OPTIONS\<close> request for \<open>/favicon.ico\<close> is answered 404 with an
  empty text body and without the CORS headers.
\<close>

theorem options_favicon_counterexample:
  "fetch lowerBasicLatin env_down [] []
     \<lparr> req_method = js ''OPTIONS'', req_path = js ''/favicon.ico'', req_json = Inl Thrown \<rparr>
   = Replied \<lparr> status = 404, headers = [], body = Text_body [] \<rparr> []
   \<and> fetch lowerBasicLatin env_down [] []
     \<lparr> req_method = js ''OPTIONS'', req_path = js ''/favicon.ico'', req_json = Inl Thrown \<rparr>
   \<noteq> Replied \<lparr> status = 200, headers = corsHeaders, body = Null_body \<rparr> []"
  by (simp add: fetch_def prefix_js_iff)

lemma hola_general: "shouldUseRAG lowerBasicLatin env_demo (js ''hola'') = (False, [])"
  by (simp add: shouldUseRAG_def hasRagKeywords_def hasGeneralKeywords_def ragKeywords_def
      generalKeywords_def lowerBasicLatin_def js_def)

text \<open>
  C8 (as the code has it). For every \<open>POST /chat\<close> request whose body parses, with a
  non-empty question and \<open>forceRAG\<close> true, the front door runs the RAG pipeline on the
  question (with \<open>topK\<close>, 3 when absent) and does not consult the classifier: the calls
  made are those of the pipeline. When the pipeline returns a result, the reply has
  status 200 and carries the result, whose \<open>usedRAG\<close> is true, with \<open>agentDecision\<close> equal
  to \<open>RAG\<close>, and the save of the interaction is attempted. When the pipeline throws, the
  reply is the 500 error object, which has neither \<open>usedRAG\<close> nor \<open>agentDecision\<close>.
\<close>

theorem forced_rag:
  assumes "req_method rq = js ''POST''" and "req_path rq = js ''/chat''"
    and "req_json rq = Inr p" and "question p = Some q" and "q \<noteq> []"
    and "forceRAG p = Some True"
  shows "(\<forall>r calls. processWithRAG e q (case topK p of None \<Rightarrow> 3 | Some k \<Rightarrow> k) = (Inr r, calls) \<longrightarrow>
            r_usedRAG r
            \<and> fetch lc e t_save t_reply rq =
                Replied \<lparr> status = 200, headers = corsHeaders,
                          body = Chat_body (chat_result.extend r
                                   \<lparr> agentDecision = js ''RAG'', timestamp = t_reply \<rparr>) \<rparr>
                  (calls @ [Agent_save \<lparr> i_question = Some (r_question r),
                                          i_answer = Some (r_answer r),
                                          i_usedRAG = Some True,
                                          i_timestamp = Some t_save \<rparr>]))
       \<and> (\<forall>x calls. processWithRAG e q (case topK p of None \<Rightarrow> 3 | Some k \<Rightarrow> k) = (Inl x, calls) \<longrightarrow>
            fetch lc e t_save t_reply rq =
                Replied \<lparr> status = 500, headers = corsHeaders,
                          body = Error_body (js ''Failed to process chat request'')
                                   (Some (error_message x)) \<rparr> calls)"
proof -
  have nf: "\<not> prefix (js ''/favicon'') (js ''/chat'')"
    by (simp add: prefix_js_iff)
  have no: "js ''POST'' \<noteq> js ''OPTIONS''"
    by (simp add: js_eq_iff)
  have f: "fetch lc e t_save t_reply rq
           = (case chat lc e t_save t_reply (Inr p) of (r, calls) \<Rightarrow> Replied r calls)"
    using assms(1-3) nf no by (simp add: fetch_def)
  show ?thesis
    unfolding f using assms(4-6)
    by (auto simp: chat_def Let_def dest: processWithRAG_usedRAG)
qed

text \<open>
  The question \<open>hola\<close>, which the classifier alone would send to the general pipeline,
  with services that answer.
\<close>

theorem forced_rag_witness:
  "req_method chat_forced = js ''POST'' \<and> req_path chat_forced = js ''/chat''
   \<and> req_json chat_forced
       = Inr \<lparr> question = Some (js ''hola''), topK = None, forceRAG = Some True \<rparr>
   \<and> js ''hola'' \<noteq> []
   \<and> shouldUseRAG lowerBasicLatin env_demo (js ''hola'') = (False, [])
   \<and> processWithRAG env_demo (js ''hola'') 3 = (Inr demo_result, demo_calls)
   \<and> r_usedRAG demo_result
   \<and> fetch lowerBasicLatin env_demo (js ''t1'') (js ''t2'') chat_forced =
       Replied \<lparr> status = 200, headers = corsHeaders,
                 body = Chat_body (chat_result.extend demo_result
                          \<lparr> agentDecision = js ''RAG'', timestamp = js ''t2'' \<rparr>) \<rparr>
         (demo_calls @ [Agent_save \<lparr> i_question = Some (r_question demo_result),
                                      i_answer = Some (r_answer demo_result),
                                      i_usedRAG = Some True,
                                      i_timestamp = Some (js ''t1'') \<rparr>])"
proof -
  have m: "req_method chat_forced = js ''POST''" and pa: "req_path chat_forced = js ''/chat''"
    and j: "req_json chat_forced
            = Inr \<lparr> question = Some (js ''hola''), topK = None, forceRAG = Some True \<rparr>"
    by (simp_all add: chat_forced_def)
  have q: "question \<lparr> question = Some (js ''hola''), topK = None, forceRAG = Some True \<rparr>
           = Some (js ''hola'')"
    and fr: "forceRAG \<lparr> question = Some (js ''hola''), topK = None, forceRAG = Some True \<rparr>
           = Some True"
    by simp_all
  have ne: "js ''hola'' \<noteq> []"
    by (simp add: js_def)
  have run: "processWithRAG env_demo (js ''hola'')
               (case topK \<lparr> question = Some (js ''hola''), topK = None, forceRAG = Some True \<rparr>
                of None \<Rightarrow> 3 | Some k \<Rightarrow> k) = (Inr demo_result, demo_calls)"
    using demo_run by simp
  from forced_rag [OF m pa j q ne fr, of env_demo lowerBasicLatin "js ''t1''" "js ''t2''"] run
  have "r_usedRAG demo_result
        \<and> fetch lowerBasicLatin env_demo (js ''t1'') (js ''t2'') chat_forced =
       Replied \<lparr> status = 200, headers = corsHeaders,
                 body = Chat_body (chat_result.extend demo_result
                          \<lparr> agentDecision = js ''RAG'', timestamp = js ''t2'' \<rparr>) \<rparr>
         (demo_calls @ [Agent_save \<lparr> i_question = Some (r_question demo_result),
                                      i_answer = Some (r_answer demo_result),
                                      i_usedRAG = Some True,
                                      i_timestamp = Some (js ''t1'') \<rparr>])"
    by blast
  with m pa j ne hola_general demo_run show ?thesis
    by blast
qed

text \<open>
  C8 as stated fails: with \<open>forceRAG\<close> true and the question \<open>hola\<close>, when the embedding
  service is down the reply is the 500 error object; it reports neither \<open>usedRAG\<close> nor
  \<open>agentDecision\<close>.
\<close>

theorem forced_rag_counterexample:
  "forceRAG \<lparr> question = Some (js ''hola''), topK = None, forceRAG = Some True \<rparr> = Some True
   \<and> fetch lowerBasicLatin env_down (js ''t1'') (js ''t2'') chat_forced =
       Replied \<lparr> status = 500, headers = corsHeaders,
                 body = Error_body (js ''Failed to process chat request'')
                          (Some (js ''RAG processing failed: AI down'')) \<rparr>
         [AI_run [js ''hola'']]"
  by (simp add: fetch_def chat_forced_def chat_def prefix_js_iff js_eq_iff processWithRAG_def
      env_down_def rag_failed_def error_message_def js_def)

subsection \<open>The history object\<close>

text \<open>
  C3. After every save that completes (a \<open>POST /save\<close> answered with status 200), the
  stored history has at most 100 records. It is the history stored before with the new
  record appended at the end, without its oldest record when it already held 100 (and
  cut down to its last 99 records when it held more).
\<close>

theorem save_bounded_fifo:
  assumes "do_method rq = js ''POST''" and "do_path rq = js ''/save''"
    and "MyAgent_fetch percent f chat_history rq = (resp, chat_history')"
    and "status resp = 200"
  shows "\<exists>entry new.
            do_json rq = Inr entry \<and> chat_history' = Some new \<and> length new \<le> 100
          \<and> body resp = Saved_body True (length new)
          \<and> (case chat_history of
                None \<Rightarrow> new = [entry]
              | Some old \<Rightarrow>
                  (if length old < 100 then new = old @ [entry]
                   else if length old = 100 then new = tl old @ [entry]
                   else new = drop (length old - 99) old @ [entry]))"
proof -
  have no: "js ''POST'' \<noteq> js ''OPTIONS''" and ng: "js ''POST'' \<noteq> js ''GET''"
    and nh: "js ''/save'' \<noteq> js ''/history''"
    by (simp_all add: js_eq_iff)
  show ?thesis
    using assms(3,4) unfolding MyAgent_fetch_def assms(1,2)
    by (auto simp: no ng nh Let_def do_error_def slice_last_def drop_Suc
        split: sum.splits option.splits if_splits)
qed

lemma save_on_full:
  "MyAgent_fetch (\<lambda>r n. 0) no_faults (Some full_history) save_request
   = (\<lparr> status = 200, headers = corsHeaders, body = Saved_body True 100 \<rparr>,
      Some (replicate 99 kept_entry @ [new_entry]))"
  by (simp add: MyAgent_fetch_def no_faults_def full_history_def save_request_def js_eq_iff
      slice_last_def)

text \<open>A save on a history of 100 records: the oldest goes, the new one is last.\<close>

theorem save_bounded_fifo_witness:
  "do_method save_request = js ''POST'' \<and> do_path save_request = js ''/save''
   \<and> MyAgent_fetch (\<lambda>r n. 0) no_faults (Some full_history) save_request
     = (\<lparr> status = 200, headers = corsHeaders, body = Saved_body True 100 \<rparr>,
        Some (replicate 99 kept_entry @ [new_entry]))
   \<and> status \<lparr> status = 200, headers = corsHeaders, body = Saved_body True 100 \<rparr> = 200
   \<and> length full_history = 100
   \<and> (\<exists>entry new.
        do_json save_request = Inr entry
      \<and> Some (replicate 99 kept_entry @ [new_entry]) = Some new \<and> length new \<le> 100
      \<and> new = tl full_history @ [entry])"
proof -
  have m: "do_method save_request = js ''POST''" and pa: "do_path save_request = js ''/save''"
    by (simp_all add: save_request_def)
  have st: "status \<lparr> status = 200, headers = corsHeaders, body = Saved_body True 100 \<rparr> = 200"
    by simp
  have len: "length full_history = 100"
    by (simp add: full_history_def)
  from save_bounded_fifo [OF m pa save_on_full st] len
  have "\<exists>entry new.
        do_json save_request = Inr entry
      \<and> Some (replicate 99 kept_entry @ [new_entry]) = Some new \<and> length new \<le> 100
      \<and> new = tl full_history @ [entry]"
    by auto
  with m pa save_on_full st len show ?thesis
    by blast
qed

text \<open>
  C9. On an empty history (the key never written, or an empty list stored) the stats
  operation answers with \<open>totalInteractions\<close>, \<open>ragUsage\<close>, \<open>generalUsage\<close> and
  \<open>ragPercentage\<close> all 0. This holds for every \<open>percent\<close>: the division is behind the
  guard and is not evaluated on an empty history.
\<close>

theorem stats_empty:
  "MyAgent_fetch percent \<lparr> get_fault = None, put_fault = pf \<rparr> None
     \<lparr> do_method = js ''GET'', do_path = js ''/stats'', do_json = j \<rparr>
   = (\<lparr> status = 200, headers = corsHeaders,
        body = Stats_body \<lparr> totalInteractions = 0, ragUsage = 0, generalUsage = 0,
                            ragPercentage = 0 \<rparr> \<rparr>, None)
   \<and> MyAgent_fetch percent \<lparr> get_fault = None, put_fault = pf \<rparr> (Some [])
     \<lparr> do_method = js ''GET'', do_path = js ''/stats'', do_json = j \<rparr>
   = (\<lparr> status = 200, headers = corsHeaders,
        body = Stats_body \<lparr> totalInteractions = 0, ragUsage = 0, generalUsage = 0,
                            ragPercentage = 0 \<rparr> \<rparr>, Some [])
   \<and> compute_stats percent []
   = \<lparr> totalInteractions = 0, ragUsage = 0, generalUsage = 0, ragPercentage = 0 \<rparr>"
  by (simp add: MyAgent_fetch_def compute_stats_def js_eq_iff)

text \<open>
  C10. For every stored history, the stats operation answers with counts such that
  \<open>ragUsage + generalUsage = totalInteractions\<close>: \<open>ragUsage\<close> counts the records whose
  \<open>usedRAG\<close> is truthy and \<open>generalUsage\<close> those whose \<open>usedRAG\<close> is not.
\<close>

theorem stats_buckets_partition:
  "ragUsage (compute_stats percent history) + generalUsage (compute_stats percent history)
   = totalInteractions (compute_stats percent history)
   \<and> ragUsage (compute_stats percent history) = length (filter usedRAG_truthy history)
   \<and> generalUsage (compute_stats percent history)
     = length (filter (\<lambda>item. \<not> usedRAG_truthy item) history)
   \<and> fst (MyAgent_fetch percent \<lparr> get_fault = None, put_fault = pf \<rparr> (Some history)
           \<lparr> do_method = js ''GET'', do_path = js ''/stats'', do_json = j \<rparr>)
     = \<lparr> status = 200, headers = corsHeaders,
         body = Stats_body (compute_stats percent history) \<rparr>"
  by (simp add: MyAgent_fetch_def compute_stats_def js_eq_iff Let_def sum_length_filter_compl)

end
